theory Spec2Isabelle
  imports Main
begin

section \<open>Python values as the row transforms see them\<close>

text \<open>
  The notebooks run on a Python 3 kernel. A row handed over by the BigQuery reader is a
  dictionary from column names to scalars: \<open>None\<close> for SQL NULL, \<open>bool\<close>, \<open>int\<close>
  (unbounded), \<open>float\<close> and \<open>str\<close>. The binary floats of Python are not modelled: a float
  is a value of a type parameter \<open>'f\<close>, and the three things the code does with one
  (printing it with \<open>str\<close>, comparing it with an integer, subtracting an integer) are the
  fields of \<open>float_ops\<close>.
\<close>

datatype py_error = KeyError | IndexError | TypeError | UnboundLocalError

datatype 'f pyval = PyNone | PyBool bool | PyInt int | PyFloat 'f | PyStr string

record 'f float_ops =
  float_str :: "'f \<Rightarrow> string"
  float_gt :: "'f \<Rightarrow> int \<Rightarrow> bool"
  float_sub :: "'f \<Rightarrow> int \<Rightarrow> 'f"

type_synonym 'f rowdict = "string \<rightharpoonup> 'f pyval"

subsection \<open>\<open>str\<close>\<close>

fun str_nat :: "nat \<Rightarrow> string" where
  "str_nat n =
     (if n < 10 then [char_of (48 + n)]
      else str_nat (n div 10) @ [char_of (48 + n mod 10)])"

declare str_nat.simps [simp del]

definition str_int :: "int \<Rightarrow> string" where
  "str_int i = (if i < 0 then CHR ''-'' # str_nat (nat (- i)) else str_nat (nat i))"

fun py_str :: "'f float_ops \<Rightarrow> 'f pyval \<Rightarrow> string" where
  "py_str fl PyNone = ''None''"
| "py_str fl (PyBool b) = (if b then ''True'' else ''False'')"
| "py_str fl (PyInt i) = str_int i"
| "py_str fl (PyFloat x) = float_str fl x"
| "py_str fl (PyStr s) = s"

subsection \<open>Comparison, subtraction, subscripting\<close>

text \<open>\<open>bool\<close> is a subclass of \<open>int\<close>: \<open>True\<close> counts as 1 and \<open>False\<close> as 0.\<close>

definition int_of_bool :: "bool \<Rightarrow> int" where
  "int_of_bool b = (if b then 1 else 0)"

text \<open>\<open>v > k\<close> for an integer literal \<open>k\<close>; \<open>None\<close> and \<open>str\<close> do not order against \<open>int\<close>.\<close>

fun py_gt :: "'f float_ops \<Rightarrow> 'f pyval \<Rightarrow> int \<Rightarrow> py_error + bool" where
  "py_gt fl PyNone k = Inl TypeError"
| "py_gt fl (PyBool b) k = Inr (int_of_bool b > k)"
| "py_gt fl (PyInt i) k = Inr (i > k)"
| "py_gt fl (PyFloat x) k = Inr (float_gt fl x k)"
| "py_gt fl (PyStr s) k = Inl TypeError"

text \<open>\<open>v - k\<close> for an integer literal \<open>k\<close>.\<close>

fun py_sub :: "'f float_ops \<Rightarrow> 'f pyval \<Rightarrow> int \<Rightarrow> py_error + 'f pyval" where
  "py_sub fl PyNone k = Inl TypeError"
| "py_sub fl (PyBool b) k = Inr (PyInt (int_of_bool b - k))"
| "py_sub fl (PyInt i) k = Inr (PyInt (i - k))"
| "py_sub fl (PyFloat x) k = Inr (PyFloat (float_sub fl x k))"
| "py_sub fl (PyStr s) k = Inl TypeError"

text \<open>
  \<open>xs[i]\<close> on a list: the index must be an integer (a \<open>bool\<close> is one), a negative index
  counts from the end, and an index outside \<open>-len(xs) .. len(xs) - 1\<close> raises IndexError.
\<close>

definition list_index :: "'a list \<Rightarrow> int \<Rightarrow> py_error + 'a" where
  "list_index xs i =
     (if 0 \<le> i \<and> i < int (length xs) then Inr (xs ! nat i)
      else if i < 0 \<and> - int (length xs) \<le> i then Inr (xs ! nat (int (length xs) + i))
      else Inl IndexError)"

fun py_list_getitem :: "'a list \<Rightarrow> 'f pyval \<Rightarrow> py_error + 'a" where
  "py_list_getitem xs PyNone = Inl TypeError"
| "py_list_getitem xs (PyBool b) = list_index xs (int_of_bool b)"
| "py_list_getitem xs (PyInt i) = list_index xs i"
| "py_list_getitem xs (PyFloat x) = Inl TypeError"
| "py_list_getitem xs (PyStr s) = Inl TypeError"

text \<open>\<open>d[k]\<close> on a dictionary raises KeyError when the key is missing.\<close>

definition dict_getitem :: "'f rowdict \<Rightarrow> string \<Rightarrow> py_error + 'f pyval" where
  "dict_getitem d k = (case d k of None \<Rightarrow> Inl KeyError | Some v \<Rightarrow> Inr v)"

text \<open>\<open>sep.join(xs)\<close>\<close>

fun join :: "string \<Rightarrow> string list \<Rightarrow> string" where
  "join sep [] = []"
| "join sep [x] = x"
| "join sep (x # y # ys) = x @ sep @ join sep (y # ys)"

section \<open>The babyweight row transform\<close>

definition CSV_COLUMNS :: "string list" where
  "CSV_COLUMNS = [''weight_pounds'', ''is_male'', ''mother_age'', ''plurality'', ''gestation_weeks'']"

definition plurality_names :: "string list" where
  "plurality_names =
     [''Single(1)'', ''Twins(2)'', ''Triplets(3)'', ''Quadruplets(4)'', ''Quintuplets(5)'']"

text \<open>
  The first part of \<open>to_csv\<close>: the two copies of the row and the assignments to them.
  Dictionaries are values here, so \<open>copy.deepcopy\<close> is the identity; the version on a store
  of mutable dictionaries is \<open>to_csv_store\<close> below. The result is the pair
  \<open>(no_ultrasound, w_ultrasound)\<close>, or the exception raised on the way.
\<close>

definition to_csv_rows :: "'f float_ops \<Rightarrow> 'f rowdict \<Rightarrow> py_error + ('f rowdict \<times> 'f rowdict)" where
  "to_csv_rows fl rowdict =
     (let no_ultrasound = rowdict;
          w_ultrasound = rowdict;
          no_ultrasound = no_ultrasound(''is_male'' \<mapsto> PyStr ''Unknown'')
      in case dict_getitem rowdict ''plurality'' of
           Inl e \<Rightarrow> Inl e
         | Inr p \<Rightarrow>
        (case py_gt fl p 1 of
           Inl e \<Rightarrow> Inl e
         | Inr multiple \<Rightarrow>
        (let no_ultrasound =
               (if multiple then no_ultrasound(''plurality'' \<mapsto> PyStr ''Multiple(2+)'')
                else no_ultrasound(''plurality'' \<mapsto> PyStr ''Single(1)''))
         in case dict_getitem rowdict ''plurality'' of
              Inl e \<Rightarrow> Inl e
            | Inr p' \<Rightarrow>
           (case py_sub fl p' 1 of
              Inl e \<Rightarrow> Inl e
            | Inr idx \<Rightarrow>
           (case py_list_getitem plurality_names idx of
              Inl e \<Rightarrow> Inl e
            | Inr name \<Rightarrow>
                Inr (no_ultrasound, w_ultrasound(''plurality'' \<mapsto> PyStr name)))))))"

text \<open>
  The body of the final loop: one line per dictionary, a missing column printed as
  \<open>None\<close>.
\<close>

definition csv_line :: "'f float_ops \<Rightarrow> 'f rowdict \<Rightarrow> string" where
  "csv_line fl result =
     join '','' (map (\<lambda>k. case result k of Some v \<Rightarrow> py_str fl v | None \<Rightarrow> ''None'') CSV_COLUMNS)"

text \<open>
  \<open>to_csv\<close> is a generator and Beam's \<open>FlatMap\<close> consumes it whole: the model returns the
  list of the lines it yields, or the exception that ends the iteration. Every raising
  statement comes before the first \<open>yield\<close>, so an exception leaves no line behind.
\<close>

definition to_csv :: "'f float_ops \<Rightarrow> 'f rowdict \<Rightarrow> py_error + string list" where
  "to_csv fl rowdict =
     (case to_csv_rows fl rowdict of
        Inl e \<Rightarrow> Inl e
      | Inr (no_ultrasound, w_ultrasound) \<Rightarrow>
          Inr (map (csv_line fl) [no_ultrasound, w_ultrasound]))"

section \<open>The taxi-fare row transform\<close>

definition TAXI_CSV_COLUMNS :: "string list" where
  "TAXI_CSV_COLUMNS =
     [''fare_amount'', ''dayofweek'', ''hourofday'', ''pickuplon'', ''pickuplat'',
      ''dropofflon'', ''dropofflat'']"

text \<open>The list comprehension \<open>[str(rowdict[k]) for k in CSV_COLUMNS]\<close>, left to right.\<close>

fun str_columns :: "'f float_ops \<Rightarrow> 'f rowdict \<Rightarrow> string list \<Rightarrow> py_error + string list" where
  "str_columns fl rowdict [] = Inr []"
| "str_columns fl rowdict (k # ks) =
     (case dict_getitem rowdict k of
        Inl e \<Rightarrow> Inl e
      | Inr v \<Rightarrow>
         (case str_columns fl rowdict ks of
            Inl e \<Rightarrow> Inl e
          | Inr ss \<Rightarrow> Inr (py_str fl v # ss)))"

definition taxi_to_csv :: "'f float_ops \<Rightarrow> 'f rowdict \<Rightarrow> py_error + string" where
  "taxi_to_csv fl rowdict =
     (case str_columns fl rowdict TAXI_CSV_COLUMNS of
        Inl e \<Rightarrow> Inl e
      | Inr ss \<Rightarrow> Inr (join '','' ss))"

section \<open>The row transforms on a store of mutable dictionaries\<close>

text \<open>
  Python passes a dictionary by reference and \<open>d[k] = v\<close> updates it in place. To say what
  a call leaves behind, dictionaries live in a store: \<open>objs s a\<close> is the dictionary at
  address \<open>a\<close>, and the addresses below \<open>fresh s\<close> are the ones in use. The column values
  are immutable scalars, so a deep copy of a row is a new dictionary with the same
  entries.
\<close>

record 'f store =
  objs :: "nat \<Rightarrow> 'f rowdict"
  fresh :: nat

definition deepcopy :: "nat \<Rightarrow> 'f store \<Rightarrow> nat \<times> 'f store" where
  "deepcopy a s =
     (fresh s, s\<lparr>objs := (objs s)(fresh s := objs s a), fresh := Suc (fresh s)\<rparr>)"

definition dict_setitem :: "nat \<Rightarrow> string \<Rightarrow> 'f pyval \<Rightarrow> 'f store \<Rightarrow> 'f store" where
  "dict_setitem a k v s = s\<lparr>objs := (objs s)(a := (objs s a)(k \<mapsto> v))\<rparr>"

text \<open>
  \<open>to_csv\<close> statement by statement, with \<open>rowdict\<close>, \<open>no_ultrasound\<close> and
  \<open>w_ultrasound\<close> as addresses. The result is what the iteration produced together with
  the store it left.
\<close>

definition to_csv_store ::
  "'f float_ops \<Rightarrow> nat \<Rightarrow> 'f store \<Rightarrow> (py_error + string list) \<times> 'f store" where
  "to_csv_store fl rowdict s0 =
     (let (no_ultrasound, s1) = deepcopy rowdict s0;
          (w_ultrasound, s2) = deepcopy rowdict s1;
          s3 = dict_setitem no_ultrasound ''is_male'' (PyStr ''Unknown'') s2
      in case dict_getitem (objs s3 rowdict) ''plurality'' of
           Inl e \<Rightarrow> (Inl e, s3)
         | Inr p \<Rightarrow>
        (case py_gt fl p 1 of
           Inl e \<Rightarrow> (Inl e, s3)
         | Inr multiple \<Rightarrow>
        (let s4 = (if multiple
                   then dict_setitem no_ultrasound ''plurality'' (PyStr ''Multiple(2+)'') s3
                   else dict_setitem no_ultrasound ''plurality'' (PyStr ''Single(1)'') s3)
         in case dict_getitem (objs s4 rowdict) ''plurality'' of
              Inl e \<Rightarrow> (Inl e, s4)
            | Inr p' \<Rightarrow>
           (case py_sub fl p' 1 of
              Inl e \<Rightarrow> (Inl e, s4)
            | Inr idx \<Rightarrow>
           (case py_list_getitem plurality_names idx of
              Inl e \<Rightarrow> (Inl e, s4)
            | Inr name \<Rightarrow>
               (let s5 = dict_setitem w_ultrasound ''plurality'' (PyStr name) s4
                in (Inr (map (\<lambda>result. csv_line fl (objs s5 result))
                           [no_ultrasound, w_ultrasound]), s5)))))))"

text \<open>The taxi-fare \<open>to_csv\<close> only reads its argument and builds strings.\<close>

definition taxi_to_csv_store ::
  "'f float_ops \<Rightarrow> nat \<Rightarrow> 'f store \<Rightarrow> (py_error + string) \<times> 'f store" where
  "taxi_to_csv_store fl rowdict s = (taxi_to_csv fl (objs s rowdict), s)"

section \<open>The natality queries\<close>

text \<open>
  The columns of \<open>publicdata.samples.natality\<close> that the two queries touch, each nullable.
  \<open>weight_pounds\<close> is a float, \<open>is_male\<close> a boolean, the others are integers.
\<close>

record 'f natality =
  year :: "int option"
  month :: "int option"
  weight_pounds :: "'f option"
  is_male :: "bool option"
  mother_age :: "int option"
  plurality :: "int option"
  gestation_weeks :: "int option"

text \<open>SQL comparison and conjunction are three-valued: \<open>None\<close> is NULL.\<close>

definition sql_gt :: "int option \<Rightarrow> int \<Rightarrow> bool option" where
  "sql_gt x k = (case x of None \<Rightarrow> None | Some v \<Rightarrow> Some (v > k))"

definition sql_float_gt :: "'f float_ops \<Rightarrow> 'f option \<Rightarrow> int \<Rightarrow> bool option" where
  "sql_float_gt fl x k = (case x of None \<Rightarrow> None | Some v \<Rightarrow> Some (float_gt fl v k))"

fun sql_and :: "bool option \<Rightarrow> bool option \<Rightarrow> bool option" where
  "sql_and (Some False) _ = Some False"
| "sql_and _ (Some False) = Some False"
| "sql_and (Some True) (Some True) = Some True"
| "sql_and _ _ = None"

text \<open>The WHERE clause shared by the Beam query and \<open>CTE_Raw_Data\<close>; a row passes when it is TRUE.\<close>

definition natality_where :: "'f float_ops \<Rightarrow> 'f natality \<Rightarrow> bool option" where
  "natality_where fl r =
     sql_and (sql_gt (year r) 2000)
    (sql_and (sql_float_gt fl (weight_pounds r) 0)
    (sql_and (sql_gt (mother_age r) 0)
    (sql_and (sql_gt (plurality r) 0)
    (sql_and (sql_gt (gestation_weeks r) 0)
             (sql_gt (month r) 0)))))"

text \<open>How the BigQuery reader hands a column value to Python.\<close>

definition py_of_float :: "'f option \<Rightarrow> 'f pyval" where
  "py_of_float x = (case x of None \<Rightarrow> PyNone | Some v \<Rightarrow> PyFloat v)"

definition py_of_bool :: "bool option \<Rightarrow> 'f pyval" where
  "py_of_bool x = (case x of None \<Rightarrow> PyNone | Some v \<Rightarrow> PyBool v)"

definition py_of_int :: "int option \<Rightarrow> 'f pyval" where
  "py_of_int x = (case x of None \<Rightarrow> PyNone | Some v \<Rightarrow> PyInt v)"

definition py_of_string :: "string option \<Rightarrow> 'f pyval" where
  "py_of_string x = (case x of None \<Rightarrow> PyNone | Some v \<Rightarrow> PyStr v)"

text \<open>
  The select list of the Beam query, as the dictionary \<open>to_csv\<close> receives. The sixth
  column is \<open>ABS(FARM_FINGERPRINT(...))\<close>; the fingerprint function belongs to BigQuery,
  so the value of that column comes in as \<open>hashmonth\<close>.
\<close>

definition beam_rowdict :: "int option \<Rightarrow> 'f natality \<Rightarrow> 'f rowdict" where
  "beam_rowdict hashmonth r =
     [''weight_pounds'' \<mapsto> py_of_float (weight_pounds r),
      ''is_male'' \<mapsto> py_of_bool (is_male r),
      ''mother_age'' \<mapsto> py_of_int (mother_age r),
      ''plurality'' \<mapsto> py_of_int (plurality r),
      ''gestation_weeks'' \<mapsto> py_of_int (gestation_weeks r),
      ''hashmonth'' \<mapsto> py_of_int hashmonth]"

text \<open>
  The BigQuery preprocessing. \<open>CTE_Raw_Data\<close> selects the same columns with
  \<open>CAST(is_male AS STRING)\<close>, which in BigQuery standard SQL turns a boolean into the
  lower-case words \<open>true\<close> and \<open>false\<close> and NULL into NULL.
\<close>

record 'f cte_row =
  cte_weight_pounds :: "'f option"
  cte_is_male :: "string option"
  cte_mother_age :: "int option"
  cte_plurality :: "int option"
  cte_gestation_weeks :: "int option"
  cte_hashmonth :: "int option"

definition cast_bool_as_string :: "bool option \<Rightarrow> string option" where
  "cast_bool_as_string x =
     (case x of None \<Rightarrow> None | Some b \<Rightarrow> Some (if b then ''true'' else ''false''))"

definition CTE_Raw_Data :: "int option \<Rightarrow> 'f natality \<Rightarrow> 'f cte_row" where
  "CTE_Raw_Data hashmonth r =
     \<lparr>cte_weight_pounds = weight_pounds r,
      cte_is_male = cast_bool_as_string (is_male r),
      cte_mother_age = mother_age r,
      cte_plurality = plurality r,
      cte_gestation_weeks = gestation_weeks r,
      cte_hashmonth = hashmonth\<rparr>"

record 'f union_row =
  out_weight_pounds :: "'f option"
  out_is_male :: "string option"
  out_mother_age :: "int option"
  out_plurality :: "string option"
  out_gestation_weeks :: "int option"
  out_hashmonth :: "int option"

text \<open>
  The two branches of the UNION ALL. A WHEN whose condition is NULL does not fire; the
  first CASE ends in \<open>ELSE "NULL"\<close> (the four-letter string), the second has no ELSE and
  yields NULL.
\<close>

definition bq_ultrasound :: "'f cte_row \<Rightarrow> 'f union_row" where
  "bq_ultrasound c =
     \<lparr>out_weight_pounds = cte_weight_pounds c,
      out_is_male = cte_is_male c,
      out_mother_age = cte_mother_age c,
      out_plurality =
        (if cte_plurality c = Some 1 then Some ''Single(1)''
         else if cte_plurality c = Some 2 then Some ''Twins(2)''
         else if cte_plurality c = Some 3 then Some ''Triplets(3)''
         else if cte_plurality c = Some 4 then Some ''Quadruplets(4)''
         else if cte_plurality c = Some 5 then Some ''Quintuplets(5)''
         else Some ''NULL''),
      out_gestation_weeks = cte_gestation_weeks c,
      out_hashmonth = cte_hashmonth c\<rparr>"

definition bq_no_ultrasound :: "'f cte_row \<Rightarrow> 'f union_row" where
  "bq_no_ultrasound c =
     \<lparr>out_weight_pounds = cte_weight_pounds c,
      out_is_male = Some ''Unknown'',
      out_mother_age = cte_mother_age c,
      out_plurality =
        (if cte_plurality c = Some 1 then Some ''Single(1)''
         else if sql_gt (cte_plurality c) 1 = Some True then Some ''Multiple(2+)''
         else None),
      out_gestation_weeks = cte_gestation_weeks c,
      out_hashmonth = cte_hashmonth c\<rparr>"

section \<open>The babyweight pipeline\<close>

definition newline :: string where
  "newline = [CHR 0x0A]"

text \<open>The triple-quoted query of \<open>preprocess\<close>, line by line; it starts and ends with a line break.\<close>

definition natality_query :: string where
  "natality_query =
     concat (map (\<lambda>l. l @ newline)
       ['''',
        ''SELECT'',
        ''    weight_pounds,'',
        ''    is_male,'',
        ''    mother_age,'',
        ''    plurality,'',
        ''    gestation_weeks,'',
        ''    ABS(FARM_FINGERPRINT(CONCAT(CAST(YEAR AS STRING), CAST(month AS STRING)))) AS hashmonth'',
        ''FROM'',
        ''    publicdata.samples.natality'',
        ''WHERE'',
        ''    year > 2000'',
        ''    AND weight_pounds > 0'',
        ''    AND mother_age > 0'',
        ''    AND plurality > 0'',
        ''    AND gestation_weeks > 0'',
        ''    AND month > 0''])"

text \<open>The \<open>if\<close>/\<open>elif\<close>/\<open>else\<close> that wraps the query for a step.\<close>

definition selquery :: "string \<Rightarrow> string \<Rightarrow> string" where
  "selquery step query =
     (if step = ''train'' then
        ''SELECT * FROM ('' @ query @ '') WHERE MOD(hashmonth, 100) < 80''
      else if step = ''eval'' then
        ''SELECT * FROM ('' @ query @ '') WHERE MOD(hashmonth, 100) >= 80 AND MOD(hashmonth, 100) < 90''
      else
        ''SELECT * FROM ('' @ query @ '') WHERE MOD(hashmonth, 100) >= 90'')"

text \<open>\<open>os.path.join\<close> of two components, as \<open>posixpath\<close> defines it.\<close>

definition os_path_join :: "string \<Rightarrow> string \<Rightarrow> string" where
  "os_path_join a b =
     (if take 1 b = ''/'' then b
      else if a = [] \<or> drop (length a - 1) a = ''/'' then a @ b
      else a @ ''/'' @ b)"

definition OUTPUT_DIR :: "string \<Rightarrow> bool \<Rightarrow> string" where
  "OUTPUT_DIR BUCKET in_test_mode =
     (if in_test_mode then ''./preproc'' else ''gs://'' @ BUCKET @ ''/babyweight/preproc/'')"

text \<open>
  A Beam pipeline as data: every \<open>p | a | b | c\<close> hangs one chain of labelled transforms
  off the pipeline root, and the pipeline is the list of its chains in the order they were
  applied.
\<close>

datatype 'f transform =
    ReadBigQuery string bool
  | FlatMap "'f rowdict \<Rightarrow> py_error + string list"
  | WriteToText string

type_synonym 'f chain = "(string \<times> 'f transform) list"

definition steps :: "string list" where
  "steps = [''train'', ''eval'']"

definition preprocess_pipeline :: "'f float_ops \<Rightarrow> string \<Rightarrow> bool \<Rightarrow> 'f chain list" where
  "preprocess_pipeline fl BUCKET in_test_mode =
     (let query = (if in_test_mode then natality_query @ '' LIMIT 100'' else natality_query)
      in map (\<lambda>step.
           [(step @ ''_read'', ReadBigQuery (selquery step query) True),
            (step @ ''_csv'', FlatMap (to_csv fl)),
            (step @ ''_out'',
               WriteToText (os_path_join (OUTPUT_DIR BUCKET in_test_mode) (step @ ''.csv'')))])
         steps)"

section \<open>The split predicates\<close>

text \<open>
  BigQuery's \<open>MOD(X, Y)\<close> on integers: the result has the sign of \<open>X\<close>, and \<open>Y = 0\<close> is an
  error, which is \<open>None\<close> here.
\<close>

definition sql_mod :: "int \<Rightarrow> int \<Rightarrow> int option" where
  "sql_mod x y = (if y = 0 then None else Some (sgn x * (\<bar>x\<bar> mod \<bar>y\<bar>)))"

text \<open>
  The WHERE clause that \<open>selquery\<close> puts around the query, read as a predicate on the
  \<open>hashmonth\<close> column, with the same three branches. A row goes to the step's output
  when the value is \<open>Some True\<close>.
\<close>

definition step_where :: "string \<Rightarrow> int \<Rightarrow> bool option" where
  "step_where step hashmonth =
     (case sql_mod hashmonth 100 of
        None \<Rightarrow> None
      | Some m \<Rightarrow>
          Some (if step = ''train'' then m < 80
                else if step = ''eval'' then m \<ge> 80 \<and> m < 90
                else m \<ge> 90))"

text \<open>
  \<open>create_query\<close> of the taxi-fare notebook. \<open>EVERY_N\<close> is replaced textually by
  \<open>sample_size\<close>, which the notebook passes as a product of literals (\<open>50*10000\<close>), so
  that \<open>EVERY_N * 70\<close> is the product of its value \<open>every_n\<close> with 70. The predicate is over
  \<open>fp\<close>, the value of \<open>ABS(FARM_FINGERPRINT(CAST(pickup_datetime AS STRING)))\<close>; the
  conjuncts of the base query on the other columns are left out. A phase other than the
  three leaves \<open>subsample\<close> unassigned.
\<close>

definition sample_where :: "int \<Rightarrow> int \<Rightarrow> bool option" where
  "sample_where every_n fp =
     (case sql_mod fp every_n of None \<Rightarrow> None | Some m \<Rightarrow> Some (m = 1))"

definition subsample_range :: "int \<Rightarrow> int \<Rightarrow> int \<Rightarrow> int \<Rightarrow> bool option" where
  "subsample_range lo hi every_n fp =
     (case sql_mod fp (every_n * 100) of
        None \<Rightarrow> None
      | Some m \<Rightarrow> Some (m \<ge> every_n * lo \<and> m < every_n * hi))"

definition create_query_where :: "string \<Rightarrow> int \<Rightarrow> int \<Rightarrow> py_error + bool option" where
  "create_query_where phase every_n fp =
     (if phase = ''TRAIN'' then
        Inr (sql_and (sample_where every_n fp) (subsample_range 0 70 every_n fp))
      else if phase = ''VALID'' then
        Inr (sql_and (sample_where every_n fp) (subsample_range 70 85 every_n fp))
      else if phase = ''TEST'' then
        Inr (sql_and (sample_where every_n fp) (subsample_range 85 100 every_n fp))
      else Inl UnboundLocalError)"

section \<open>Calls into the cloud services\<close>

text \<open>
  A call into a client library or a command-line tool either returns or raises; \<open>'x\<close> is
  the type of what it raises, and the outcome of each call is an input of the model.
\<close>







section \<open>Shell cells\<close>











section \<open>Instances for evaluation\<close>

text \<open>
  Floats with integral values, carried by the integer: \<open>str(7.0)\<close> is \<open>7.0\<close>, and
  comparison and subtraction are those of the integers.
\<close>

definition whole_floats :: "int float_ops" where
  "whole_floats =
     \<lparr>float_str = (\<lambda>x. str_int x @ ''.0''),
      float_gt = (\<lambda>x k. x > k),
      float_sub = (\<lambda>x k. x - k)\<rparr>"

definition twin_birth :: "int natality" where
  "twin_birth =
     \<lparr>year = Some 2005, month = Some 7, weight_pounds = Some 7, is_male = Some True,
      mother_age = Some 30, plurality = Some 2, gestation_weeks = Some 39\<rparr>"

definition sextuplet_birth :: "int natality" where
  "sextuplet_birth = twin_birth\<lparr>plurality := Some 6\<rparr>"

definition taxi_trip :: "int rowdict" where
  "taxi_trip =
     [''fare_amount'' \<mapsto> PyFloat 12, ''dayofweek'' \<mapsto> PyInt 3, ''hourofday'' \<mapsto> PyInt 17,
      ''pickuplon'' \<mapsto> PyFloat (- 73), ''pickuplat'' \<mapsto> PyFloat 40,
      ''dropofflon'' \<mapsto> PyFloat (- 74), ''dropofflat'' \<mapsto> PyFloat 41]"

text \<open>Two stores: the same row at address 0 of one and at address 1 of the other.\<close>

definition one_row_store :: "int store" where
  "one_row_store = \<lparr>objs = (\<lambda>a. beam_rowdict (Some 1234) twin_birth), fresh = 1\<rparr>"

definition two_row_store :: "int store" where
  "two_row_store =
     \<lparr>objs = (\<lambda>a. if a = 1 then beam_rowdict (Some 1234) twin_birth else taxi_trip), fresh = 2\<rparr>"


section \<open>Facts about the row transforms\<close>

lemma list_index_names:
  "(\<exists>s. list_index plurality_names i = Inr s) \<longleftrightarrow> - 5 \<le> i \<and> i \<le> 4"
  by (auto simp: list_index_def plurality_names_def Let_def)

lemma list_index_names_nth:
  "0 \<le> i \<Longrightarrow> i \<le> 4 \<Longrightarrow> list_index plurality_names i = Inr (plurality_names ! nat i)"
  by (auto simp: list_index_def plurality_names_def Let_def)

lemma to_csv_rows_ok_iff:
  "(\<exists>rows. to_csv_rows fl r = Inr rows) \<longleftrightarrow>
   ((\<exists>n. r ''plurality'' = Some (PyInt n) \<and> - 4 \<le> n \<and> n \<le> 5)
    \<or> (\<exists>b. r ''plurality'' = Some (PyBool b)))"
proof (cases "r ''plurality''")
  case None
  then show ?thesis by (simp add: to_csv_rows_def dict_getitem_def)
next
  case (Some v)
  show ?thesis
  proof (cases v)
    case PyNone
    with Some show ?thesis by (simp add: to_csv_rows_def dict_getitem_def)
  next
    case (PyBool b)
    have "\<exists>s. list_index plurality_names (int_of_bool b - 1) = Inr s"
      unfolding list_index_names by (simp add: int_of_bool_def)
    then show ?thesis using Some PyBool
      by (auto simp: to_csv_rows_def dict_getitem_def Let_def split: sum.splits)
  next
    case (PyInt i)
    have "(\<exists>s. list_index plurality_names (i - 1) = Inr s) \<longleftrightarrow> - 4 \<le> i \<and> i \<le> 5"
      unfolding list_index_names by auto
    with Some PyInt show ?thesis
      by (auto simp: to_csv_rows_def dict_getitem_def Let_def split: sum.splits)
  next
    case (PyFloat x)
    with Some show ?thesis by (simp add: to_csv_rows_def dict_getitem_def)
  next
    case (PyStr s)
    with Some show ?thesis by (simp add: to_csv_rows_def dict_getitem_def)
  qed
qed

lemma to_csv_ok_rows: "(\<exists>ls. to_csv fl r = Inr ls) \<longleftrightarrow> (\<exists>rows. to_csv_rows fl r = Inr rows)"
  by (auto simp: to_csv_def split: sum.splits)

lemma str_columns_ok_iff:
  "(\<exists>ss. str_columns fl r ks = Inr ss) \<longleftrightarrow> set ks \<subseteq> dom r"
  by (induction ks) (auto simp: dict_getitem_def split: option.splits sum.splits)

lemma taxi_to_csv_ok_iff:
  "(\<exists>s. taxi_to_csv fl r = Inr s) \<longleftrightarrow> set TAXI_CSV_COLUMNS \<subseteq> dom r"
proof -
  have "(\<exists>s. taxi_to_csv fl r = Inr s) \<longleftrightarrow> (\<exists>ss. str_columns fl r TAXI_CSV_COLUMNS = Inr ss)"
    by (auto simp: taxi_to_csv_def split: sum.splits)
  then show ?thesis by (simp add: str_columns_ok_iff)
qed

lemma to_csv_rows_int:
  assumes "r ''plurality'' = Some (PyInt n)" "1 \<le> n" "n \<le> 5"
  shows "to_csv_rows fl r =
     Inr (r(''is_male'' \<mapsto> PyStr ''Unknown'',
            ''plurality'' \<mapsto> PyStr (if n > 1 then ''Multiple(2+)'' else ''Single(1)'')),
          r(''plurality'' \<mapsto> PyStr (plurality_names ! nat (n - 1))))"
proof -
  have "list_index plurality_names (n - 1) = Inr (plurality_names ! nat (n - 1))"
    using assms by (intro list_index_names_nth) auto
  with assms(1) show ?thesis
    by (simp add: to_csv_rows_def dict_getitem_def Let_def)
qed

text \<open>
  Claim C1, as the code has it. Both row transforms terminate on every dictionary, but not
  always normally. The babyweight \<open>to_csv\<close> yields its lines without raising exactly when
  the row has a \<open>plurality\<close> that is an integer from -4 to 5 or a boolean (the other
  columns may be missing: they print as \<open>None\<close>); the taxi-fare \<open>to_csv\<close> returns without
  raising exactly when all seven columns are present.
\<close>

theorem to_csv_returns_iff:
  "((\<exists>ls. to_csv fl r = Inr ls) \<longleftrightarrow>
      ((\<exists>n. r ''plurality'' = Some (PyInt n) \<and> - 4 \<le> n \<and> n \<le> 5)
        \<or> (\<exists>b. r ''plurality'' = Some (PyBool b))))
   \<and> ((\<exists>s. taxi_to_csv fl t = Inr s) \<longleftrightarrow> set TAXI_CSV_COLUMNS \<subseteq> dom t)"
  unfolding to_csv_ok_rows to_csv_rows_ok_iff taxi_to_csv_ok_iff by simp

theorem to_csv_returns_iff_witness:
  "(\<exists>ls. to_csv whole_floats (beam_rowdict (Some 1234) twin_birth) = Inr ls)
   \<and> (\<exists>s. taxi_to_csv whole_floats taxi_trip = Inr s)"
proof -
  have "set TAXI_CSV_COLUMNS \<subseteq> dom taxi_trip"
    by (simp add: TAXI_CSV_COLUMNS_def taxi_trip_def)
  moreover have "beam_rowdict (Some 1234) twin_birth ''plurality'' = Some (PyInt 2)"
    by (simp add: beam_rowdict_def twin_birth_def py_of_int_def)
  ultimately show ?thesis
    using to_csv_returns_iff [of whole_floats "beam_rowdict (Some 1234) twin_birth" taxi_trip]
    by simp
qed

text \<open>
  Claim C1 as stated fails: a plurality of 6 raises IndexError, a row without
  \<open>plurality\<close> raises KeyError, and a taxi row without \<open>hourofday\<close> raises KeyError.
\<close>

theorem to_csv_raises_counterexample:
  "to_csv whole_floats (beam_rowdict (Some 1234) sextuplet_birth) = Inl IndexError
   \<and> to_csv whole_floats ((beam_rowdict (Some 1234) twin_birth)(''plurality'' := None)) = Inl KeyError
   \<and> taxi_to_csv whole_floats (taxi_trip(''hourofday'' := None)) = Inl KeyError"
  by (simp add: to_csv_def to_csv_rows_def beam_rowdict_def sextuplet_birth_def twin_birth_def
      py_of_int_def dict_getitem_def list_index_def plurality_names_def taxi_to_csv_def
      TAXI_CSV_COLUMNS_def taxi_trip_def)

text \<open>
  Claim C3, as the code has it. When \<open>plurality\<close> is an integer from 1 to 5 the subscript
  into the five plurality names succeeds and \<open>to_csv\<close> raises nothing, whatever the other
  columns hold.
\<close>

theorem plurality_index_in_range:
  assumes "r ''plurality'' = Some (PyInt n)" "1 \<le> n" "n \<le> 5"
  shows "py_list_getitem plurality_names (PyInt (n - 1)) = Inr (plurality_names ! nat (n - 1))
         \<and> (\<exists>ls. to_csv fl r = Inr ls)"
proof -
  have "list_index plurality_names (n - 1) = Inr (plurality_names ! nat (n - 1))"
    using assms by (intro list_index_names_nth) auto
  moreover have "\<exists>ls. to_csv fl r = Inr ls"
    by (simp add: to_csv_def to_csv_rows_int [of r n fl, OF assms])
  ultimately show ?thesis by simp
qed

theorem plurality_index_in_range_witness:
  "py_list_getitem plurality_names (PyInt (2 - 1)) = Inr ''Twins(2)''
   \<and> (\<exists>ls. to_csv whole_floats (beam_rowdict (Some 1234) twin_birth) = Inr ls)"
proof -
  have "beam_rowdict (Some 1234) twin_birth ''plurality'' = Some (PyInt 2)"
    by (simp add: beam_rowdict_def twin_birth_def py_of_int_def)
  then show ?thesis
    using plurality_index_in_range [of "beam_rowdict (Some 1234) twin_birth" 2 whole_floats]
    by (simp add: plurality_names_def)
qed

text \<open>
  Claim C3 as stated fails: a row that passes every filter of the query, with no NULL
  column and a plurality of 6, makes the subscript raise IndexError.
\<close>

theorem plurality_index_counterexample:
  "natality_where whole_floats sextuplet_birth = Some True
   \<and> beam_rowdict (Some 1234) sextuplet_birth ''plurality'' = Some (PyInt 6)
   \<and> py_list_getitem plurality_names (PyInt (6 - 1)) = Inl IndexError
   \<and> to_csv_rows whole_floats (beam_rowdict (Some 1234) sextuplet_birth) = Inl IndexError"
  by (simp add: natality_where_def sextuplet_birth_def twin_birth_def sql_gt_def sql_float_gt_def
      whole_floats_def beam_rowdict_def py_of_int_def list_index_def plurality_names_def
      to_csv_rows_def dict_getitem_def)

text \<open>
  Claim C4, as the code has it. For a row with the five columns and an integer plurality
  \<open>n\<close> from 1 to 5, the babyweight \<open>to_csv\<close> yields exactly two lines of five fields:
  first the line with \<open>Unknown\<close> for \<open>is_male\<close> and \<open>Multiple(2+)\<close> or \<open>Single(1)\<close> for the
  plurality, then the line with the \<open>n\<close>-th plurality name; the other fields are \<open>str\<close> of
  the input values, and \<open>hashmonth\<close> is dropped.
\<close>

theorem to_csv_two_lines:
  assumes "r ''weight_pounds'' = Some w" "r ''is_male'' = Some m" "r ''mother_age'' = Some a"
    "r ''plurality'' = Some (PyInt n)" "r ''gestation_weeks'' = Some g" "1 \<le> n" "n \<le> 5"
  shows "to_csv fl r =
     Inr [py_str fl w @ '','' @ ''Unknown'' @ '','' @ py_str fl a @ '','' @
            (if n > 1 then ''Multiple(2+)'' else ''Single(1)'') @ '','' @ py_str fl g,
          py_str fl w @ '','' @ py_str fl m @ '','' @ py_str fl a @ '','' @
            plurality_names ! nat (n - 1) @ '','' @ py_str fl g]"
proof -
  note rows = to_csv_rows_int [of r n fl, OF assms(4,6,7)]
  show ?thesis
    using assms(1,2,3,5) by (simp add: to_csv_def rows csv_line_def CSV_COLUMNS_def)
qed

theorem to_csv_two_lines_witness:
  "to_csv whole_floats (beam_rowdict (Some 1234) twin_birth) =
     Inr [''7.0,Unknown,30,Multiple(2+),39'', ''7.0,True,30,Twins(2),39'']"
proof -
  have s: "str_int 7 = ''7''" "str_int 30 = ''30''" "str_int 39 = ''39''"
    by code_simp+
  show ?thesis
    using to_csv_two_lines [of "beam_rowdict (Some 1234) twin_birth" "PyFloat 7" "PyBool True"
        "PyInt 30" 2 "PyInt 39" whole_floats]
    by (simp add: beam_rowdict_def twin_birth_def py_of_int_def py_of_float_def py_of_bool_def
        whole_floats_def s plurality_names_def)
qed

text \<open>
  Claim C4 as stated fails: the row has all expected columns, its plurality is 6, and
  \<open>to_csv\<close> raises instead of yielding two lines.
\<close>

theorem to_csv_no_lines_counterexample:
  "isl (to_csv whole_floats (beam_rowdict (Some 1234) sextuplet_birth))"
  by (simp add: to_csv_def to_csv_rows_def beam_rowdict_def sextuplet_birth_def twin_birth_def
      py_of_int_def dict_getitem_def list_index_def plurality_names_def)

text \<open>
  Claim C8. For a row with the seven taxi columns, \<open>to_csv\<close> returns one line: \<open>str\<close> of
  the seven values in the fixed column order, separated by commas, and nothing else.
\<close>

theorem taxi_to_csv_line:
  assumes "r ''fare_amount'' = Some v1" "r ''dayofweek'' = Some v2" "r ''hourofday'' = Some v3"
    "r ''pickuplon'' = Some v4" "r ''pickuplat'' = Some v5" "r ''dropofflon'' = Some v6"
    "r ''dropofflat'' = Some v7"
  shows "taxi_to_csv fl r =
     Inr (py_str fl v1 @ '','' @ py_str fl v2 @ '','' @ py_str fl v3 @ '','' @ py_str fl v4 @ '','' @
          py_str fl v5 @ '','' @ py_str fl v6 @ '','' @ py_str fl v7)"
  using assms by (simp add: taxi_to_csv_def TAXI_CSV_COLUMNS_def dict_getitem_def)

theorem taxi_to_csv_line_witness:
  "taxi_to_csv whole_floats taxi_trip = Inr ''12.0,3,17,-73.0,40.0,-74.0,41.0''"
proof -
  have s: "str_int 12 = ''12''" "str_int 3 = ''3''" "str_int 17 = ''17''" "str_int (- 73) = ''-73''"
     "str_int 40 = ''40''" "str_int (- 74) = ''-74''" "str_int 41 = ''41''"
    by code_simp+
  show ?thesis
    using taxi_to_csv_line [of taxi_trip "PyFloat 12" "PyInt 3" "PyInt 17" "PyFloat (- 73)"
        "PyFloat 40" "PyFloat (- 74)" "PyFloat 41" whole_floats]
    by (simp add: taxi_trip_def whole_floats_def s)
qed


section \<open>Facts about the store\<close>

lemma fresh_deepcopy: "fresh (snd (deepcopy a s)) = Suc (fresh s)"
  by (simp add: deepcopy_def)

lemma fst_deepcopy: "fst (deepcopy a s) = fresh s"
  by (simp add: deepcopy_def)

lemma objs_deepcopy:
  "objs (snd (deepcopy a s)) b = (if b = fresh s then objs s a else objs s b)"
  by (simp add: deepcopy_def)

lemma fresh_setitem: "fresh (dict_setitem a k v s) = fresh s"
  by (simp add: dict_setitem_def)

lemma objs_setitem:
  "objs (dict_setitem a k v s) b = (if b = a then (objs s a)(k \<mapsto> v) else objs s b)"
  by (simp add: dict_setitem_def)


lemma to_csv_store_spec:
  "(a < fresh s \<longrightarrow> fst (to_csv_store fl a s) = to_csv fl (objs s a))
   \<and> (\<forall>b < fresh s. objs (snd (to_csv_store fl a s)) b = objs s b)"
proof -
  define s3 where
    "s3 = dict_setitem (fresh s) ''is_male'' (PyStr ''Unknown'') (snd (deepcopy a (snd (deepcopy a s))))"
  define s4 where
    "s4 m = (if m then dict_setitem (fresh s) ''plurality'' (PyStr ''Multiple(2+)'') s3
             else dict_setitem (fresh s) ''plurality'' (PyStr ''Single(1)'') s3)" for m
  define s5 where
    "s5 m name = dict_setitem (Suc (fresh s)) ''plurality'' (PyStr name) (s4 m)" for m name
  have unfold: "to_csv_store fl a s =
     (case dict_getitem (objs s3 a) ''plurality'' of
        Inl e \<Rightarrow> (Inl e, s3)
      | Inr p \<Rightarrow>
     (case py_gt fl p 1 of
        Inl e \<Rightarrow> (Inl e, s3)
      | Inr m \<Rightarrow>
     (case dict_getitem (objs (s4 m) a) ''plurality'' of
        Inl e \<Rightarrow> (Inl e, s4 m)
      | Inr p' \<Rightarrow>
     (case py_sub fl p' 1 of
        Inl e \<Rightarrow> (Inl e, s4 m)
      | Inr idx \<Rightarrow>
     (case py_list_getitem plurality_names idx of
        Inl e \<Rightarrow> (Inl e, s4 m)
      | Inr name \<Rightarrow>
         (Inr [csv_line fl (objs (s5 m name) (fresh s)),
               csv_line fl (objs (s5 m name) (Suc (fresh s)))], s5 m name))))))"
    unfolding to_csv_store_def s5_def s4_def s3_def
    by (simp only: Let_def case_prod_beta fst_deepcopy fresh_deepcopy list.map)
  have old3: "objs s3 b = objs s b" if "b < fresh s" for b
    using that by (simp add: s3_def objs_setitem objs_deepcopy fresh_deepcopy)
  have old4: "objs (s4 m) b = objs s b" if "b < fresh s" for b m
    using that by (simp add: s4_def objs_setitem old3)
  have old5: "objs (s5 m name) b = objs s b" if "b < fresh s" for b m name
    using that by (simp add: s5_def objs_setitem old4)
  have no3: "objs s3 (fresh s) = (objs s a)(''is_male'' \<mapsto> PyStr ''Unknown'')" if "a < fresh s"
    using that by (simp add: s3_def objs_setitem objs_deepcopy fresh_deepcopy)
  have w3: "objs s3 (Suc (fresh s)) = objs s a" if "a < fresh s"
    using that by (simp add: s3_def objs_setitem objs_deepcopy fresh_deepcopy)
  have no5: "objs (s5 m name) (fresh s) =
      (if m then (objs s a)(''is_male'' \<mapsto> PyStr ''Unknown'', ''plurality'' \<mapsto> PyStr ''Multiple(2+)'')
       else (objs s a)(''is_male'' \<mapsto> PyStr ''Unknown'', ''plurality'' \<mapsto> PyStr ''Single(1)''))"
    if "a < fresh s" for m name
    using that by (simp add: s5_def s4_def objs_setitem no3)
  have w5: "objs (s5 m name) (Suc (fresh s)) = (objs s a)(''plurality'' \<mapsto> PyStr name)"
    if "a < fresh s" for m name
    using that by (simp add: s5_def s4_def objs_setitem w3)
  have frame: "\<forall>b < fresh s. objs (snd (to_csv_store fl a s)) b = objs s b"
    unfolding unfold by (simp add: old3 old4 old5 split: sum.splits)
  have result: "fst (to_csv_store fl a s) = to_csv fl (objs s a)" if "a < fresh s"
    unfolding unfold to_csv_def to_csv_rows_def Let_def
    using that by (simp add: old3 old4 no5 w5 split: sum.splits)
  from frame result show ?thesis by blast
qed


text \<open>
  Claim C9. A call of either \<open>to_csv\<close> leaves the dictionary it was given as it was, and
  with it every dictionary that existed before the call: the babyweight version writes only
  to the two copies it makes, and the taxi-fare version writes nothing.
\<close>

theorem to_csv_leaves_argument:
  assumes "rowdict < fresh s"
  shows "objs (snd (to_csv_store fl rowdict s)) rowdict = objs s rowdict
         \<and> (\<forall>b < fresh s. objs (snd (to_csv_store fl rowdict s)) b = objs s b)
         \<and> snd (taxi_to_csv_store fl rowdict s) = s"
  using assms to_csv_store_spec [of rowdict s fl] by (simp add: taxi_to_csv_store_def)

theorem to_csv_leaves_argument_witness:
  "objs (snd (to_csv_store whole_floats 0 one_row_store)) 0 = beam_rowdict (Some 1234) twin_birth
   \<and> snd (taxi_to_csv_store whole_floats 0 one_row_store) = one_row_store"
  using to_csv_leaves_argument [of 0 one_row_store whole_floats]
  by (simp add: one_row_store_def)

text \<open>
  Claim C10. The output of either \<open>to_csv\<close> is determined by the entries of the row: two
  calls on equal rows give the same lines or the same exception, wherever the rows sit and
  whatever else the store holds.
\<close>

theorem to_csv_deterministic:
  assumes "a1 < fresh s1" "a2 < fresh s2" "objs s1 a1 = objs s2 a2"
  shows "fst (to_csv_store fl a1 s1) = fst (to_csv_store fl a2 s2)
         \<and> fst (taxi_to_csv_store fl a1 s1) = fst (taxi_to_csv_store fl a2 s2)"
  using assms to_csv_store_spec [of a1 s1 fl] to_csv_store_spec [of a2 s2 fl]
  by (simp add: taxi_to_csv_store_def)

theorem to_csv_deterministic_witness:
  "fst (to_csv_store whole_floats 0 one_row_store) = fst (to_csv_store whole_floats 1 two_row_store)
   \<and> fresh one_row_store \<noteq> fresh two_row_store"
  using to_csv_deterministic [of 0 one_row_store 1 two_row_store whole_floats]
  by (simp add: one_row_store_def two_row_store_def)

section \<open>Beam against BigQuery\<close>

text \<open>
  Claim C5, as the code has it. For a row that passes the WHERE filters with a plurality from
  1 to 5, the two dictionaries of the babyweight \<open>to_csv\<close> are the Beam row with the
  plurality of the matching UNION ALL branch, and in the no-ultrasound one also with its
  \<open>is_male\<close>, \<open>Unknown\<close>. Nothing is said of \<open>is_male\<close> in the with-ultrasound pair.
\<close>

theorem beam_matches_bigquery:
  assumes "natality_where fl r = Some True" "plurality r = Some n" "1 \<le> n" "n \<le> 5"
  shows "to_csv_rows fl (beam_rowdict h r) =
           Inr ((beam_rowdict h r)
                  (''is_male'' \<mapsto> py_of_string (out_is_male (bq_no_ultrasound (CTE_Raw_Data h r))),
                   ''plurality'' \<mapsto> py_of_string (out_plurality (bq_no_ultrasound (CTE_Raw_Data h r)))),
                (beam_rowdict h r)
                  (''plurality'' \<mapsto> py_of_string (out_plurality (bq_ultrasound (CTE_Raw_Data h r)))))"
proof -
  have p: "beam_rowdict h r ''plurality'' = Some (PyInt n)"
    using assms(2) by (simp add: beam_rowdict_def py_of_int_def)
  have n: "n = 1 \<or> n = 2 \<or> n = 3 \<or> n = 4 \<or> n = 5"
    using assms(3,4) by arith
  have us: "out_plurality (bq_ultrasound (CTE_Raw_Data h r)) = Some (plurality_names ! nat (n - 1))"
    using n assms(2) by (auto simp: bq_ultrasound_def CTE_Raw_Data_def plurality_names_def)
  have no: "out_plurality (bq_no_ultrasound (CTE_Raw_Data h r)) =
      Some (if n > 1 then ''Multiple(2+)'' else ''Single(1)'')"
    using n assms(2) by (auto simp: bq_no_ultrasound_def CTE_Raw_Data_def sql_gt_def)
  have im: "out_is_male (bq_no_ultrasound (CTE_Raw_Data h r)) = Some ''Unknown''"
    by (simp add: bq_no_ultrasound_def)
  show ?thesis
    unfolding to_csv_rows_int [of "beam_rowdict h r" n fl, OF p assms(3,4)] us no im
    by (simp add: py_of_string_def)
qed

theorem beam_matches_bigquery_witness:
  "to_csv_rows whole_floats (beam_rowdict (Some 1234) twin_birth) =
     Inr ((beam_rowdict (Some 1234) twin_birth)
            (''is_male'' \<mapsto> PyStr ''Unknown'', ''plurality'' \<mapsto> PyStr ''Multiple(2+)''),
          (beam_rowdict (Some 1234) twin_birth)(''plurality'' \<mapsto> PyStr ''Twins(2)''))"
proof -
  have "natality_where whole_floats twin_birth = Some True"
    by (simp add: natality_where_def twin_birth_def sql_gt_def sql_float_gt_def whole_floats_def)
  moreover have "plurality twin_birth = Some 2"
    by (simp add: twin_birth_def)
  ultimately show ?thesis
    using beam_matches_bigquery [of whole_floats twin_birth 2 "Some 1234"]
    by (simp add: bq_no_ultrasound_def bq_ultrasound_def CTE_Raw_Data_def twin_birth_def
        sql_gt_def py_of_string_def)
qed

text \<open>
  Claim C5 as stated fails on \<open>is_male\<close> in the with-ultrasound pair: Beam keeps the
  boolean, which \<open>str\<close> prints as \<open>True\<close>, and the BigQuery branch holds the string
  \<open>true\<close> that the cast produced.
\<close>

theorem is_male_differs_counterexample:
  "natality_where whole_floats twin_birth = Some True
   \<and> snd (projr (to_csv_rows whole_floats (beam_rowdict (Some 1234) twin_birth))) ''is_male''
       = Some (PyBool True)
   \<and> py_str whole_floats (PyBool True) = ''True''
   \<and> out_is_male (bq_ultrasound (CTE_Raw_Data (Some 1234) twin_birth)) = Some ''true''
   \<and> ''True'' \<noteq> ''true''"
  by (simp add: natality_where_def twin_birth_def sql_gt_def sql_float_gt_def whole_floats_def
      to_csv_rows_def beam_rowdict_def py_of_int_def py_of_bool_def dict_getitem_def
      list_index_def plurality_names_def bq_ultrasound_def CTE_Raw_Data_def cast_bool_as_string_def)

section \<open>The pipeline and the splits\<close>

lemma os_path_join_slash: "take 1 b \<noteq> ''/'' \<Longrightarrow> os_path_join (a @ ''/'') b = a @ ''/'' @ b"
  by (simp add: os_path_join_def)

lemma output_path:
  "os_path_join (OUTPUT_DIR BUCKET in_test_mode) (step @ ''.csv'') =
     (if take 1 (step @ ''.csv'') = ''/'' then step @ ''.csv''
      else if in_test_mode then ''./preproc/'' @ step @ ''.csv''
      else ''gs://'' @ BUCKET @ ''/babyweight/preproc/'' @ step @ ''.csv'')"
proof (cases in_test_mode)
  case True
  then show ?thesis by (simp add: OUTPUT_DIR_def os_path_join_def)
next
  case False
  have "OUTPUT_DIR BUCKET in_test_mode = (''gs://'' @ BUCKET @ ''/babyweight/preproc'') @ ''/''"
    using False by (simp add: OUTPUT_DIR_def)
  then show ?thesis
    using False os_path_join_slash [of "step @ ''.csv''" "''gs://'' @ BUCKET @ ''/babyweight/preproc''"]
    by (auto simp: os_path_join_def)
qed

text \<open>
  Claim C6. The pipeline that \<open>preprocess\<close> builds has one chain for \<open>train\<close> and one for
  \<open>eval\<close>, each of exactly three stages in this order: read from BigQuery with the step's
  query, flat-map through \<open>to_csv\<close>, write text to \<open>train.csv\<close> or \<open>eval.csv\<close> under the
  output directory. There is no other stage.
\<close>

theorem preprocess_three_stages:
  "preprocess_pipeline fl BUCKET in_test_mode =
     [[(''train_read'',
          ReadBigQuery (''SELECT * FROM ('' @
                          (if in_test_mode then natality_query @ '' LIMIT 100'' else natality_query) @
                        '') WHERE MOD(hashmonth, 100) < 80'') True),
       (''train_csv'', FlatMap (to_csv fl)),
       (''train_out'',
          WriteToText (if in_test_mode then ''./preproc/train.csv''
                       else ''gs://'' @ BUCKET @ ''/babyweight/preproc/train.csv''))],
      [(''eval_read'',
          ReadBigQuery (''SELECT * FROM ('' @
                          (if in_test_mode then natality_query @ '' LIMIT 100'' else natality_query) @
                        '') WHERE MOD(hashmonth, 100) >= 80 AND MOD(hashmonth, 100) < 90'') True),
       (''eval_csv'', FlatMap (to_csv fl)),
       (''eval_out'',
          WriteToText (if in_test_mode then ''./preproc/eval.csv''
                       else ''gs://'' @ BUCKET @ ''/babyweight/preproc/eval.csv''))]]"
  by (simp add: preprocess_pipeline_def steps_def selquery_def output_path Let_def)

theorem preprocess_three_stages_witness:
  "map (map fst) (preprocess_pipeline whole_floats ''cloud-training-bucket'' False) =
     [[''train_read'', ''train_csv'', ''train_out''], [''eval_read'', ''eval_csv'', ''eval_out'']]
   \<and> map (\<lambda>c. snd (c ! 2)) (preprocess_pipeline whole_floats ''cloud-training-bucket'' False) =
     [WriteToText ''gs://cloud-training-bucket/babyweight/preproc/train.csv'',
      WriteToText ''gs://cloud-training-bucket/babyweight/preproc/eval.csv'']"
  using preprocess_three_stages [of whole_floats "''cloud-training-bucket''" False]
  by simp

lemma step_where_train: "step_where ''train'' h = Some True \<longleftrightarrow> (\<exists>m. sql_mod h 100 = Some m \<and> m < 80)"
  by (auto simp: step_where_def split: option.splits)

lemma step_where_eval:
  "step_where ''eval'' h = Some True \<longleftrightarrow> (\<exists>m. sql_mod h 100 = Some m \<and> 80 \<le> m \<and> m < 90)"
  by (auto simp: step_where_def split: option.splits)

lemma subsample_range_True:
  "subsample_range lo hi n fp = Some True \<longleftrightarrow>
     (\<exists>m. sql_mod fp (n * 100) = Some m \<and> n * lo \<le> m \<and> m < n * hi)"
  by (auto simp: subsample_range_def split: option.splits)

lemma sql_and_True: "sql_and p q = Some True \<longleftrightarrow> p = Some True \<and> q = Some True"
  by (cases "(p, q)" rule: sql_and.cases) auto

lemma create_query_where_True:
  "create_query_where phase n fp = Inr (Some True) \<longleftrightarrow>
     sample_where n fp = Some True \<and>
     (phase = ''TRAIN'' \<and> subsample_range 0 70 n fp = Some True
      \<or> phase = ''VALID'' \<and> subsample_range 70 85 n fp = Some True
      \<or> phase = ''TEST'' \<and> subsample_range 85 100 n fp = Some True)"
  by (auto simp: create_query_where_def sql_and_True)

lemma ranges_disjoint:
  assumes "subsample_range lo hi n fp = Some True" "subsample_range lo' hi' n fp = Some True"
    "hi \<le> lo'" "lo \<le> hi"
  shows False
proof -
  from assms(1,2) obtain m where m: "n * lo \<le> m" "m < n * hi" "n * lo' \<le> m" "m < n * hi'"
    unfolding subsample_range_True by auto
  show False
  proof (cases "0 \<le> n")
    case True
    with assms(3) have "n * hi \<le> n * lo'" by (rule mult_left_mono)
    with m(2,3) show False by simp
  next
    case False
    then have "n \<le> 0" by simp
    with assms(4) have "n * hi \<le> n * lo" by (rule mult_left_mono_neg)
    with m(1,2) show False by simp
  qed
qed

lemma phases_disjoint:
  assumes "create_query_where p n fp = Inr (Some True)" "create_query_where q n fp = Inr (Some True)"
  shows "p = q"
proof -
  have tv: "\<not> (subsample_range 0 70 n fp = Some True \<and> subsample_range 70 85 n fp = Some True)"
    using ranges_disjoint [of 0 70 n fp 70 85] by auto
  have tt: "\<not> (subsample_range 0 70 n fp = Some True \<and> subsample_range 85 100 n fp = Some True)"
    using ranges_disjoint [of 0 70 n fp 85 100] by auto
  have vt: "\<not> (subsample_range 70 85 n fp = Some True \<and> subsample_range 85 100 n fp = Some True)"
    using ranges_disjoint [of 70 85 n fp 85 100] by auto
  from assms [unfolded create_query_where_True] tv tt vt show ?thesis
    by blast
qed

text \<open>
  Claim C7. No \<open>hashmonth\<close> satisfies both the train and the eval predicate; a row whose
  \<open>MOD(hashmonth, 100)\<close> is 90 or more goes to neither output of \<open>preprocess\<close>; and no
  fingerprint satisfies the predicates of two different phases of \<open>create_query\<close>, for any
  value of \<open>EVERY_N\<close>.
\<close>

theorem splits_disjoint:
  "\<not> (step_where ''train'' h = Some True \<and> step_where ''eval'' h = Some True)
   \<and> (sql_mod h 100 = Some m \<and> m \<ge> 90 \<longrightarrow> (\<forall>step \<in> set steps. step_where step h \<noteq> Some True))
   \<and> (p \<noteq> q \<longrightarrow>
        \<not> (create_query_where p n fp = Inr (Some True) \<and> create_query_where q n fp = Inr (Some True)))"
proof -
  have a: "\<not> (step_where ''train'' h = Some True \<and> step_where ''eval'' h = Some True)"
    by (auto simp: step_where_train step_where_eval)
  have b: "sql_mod h 100 = Some m \<and> m \<ge> 90 \<longrightarrow> (\<forall>step \<in> set steps. step_where step h \<noteq> Some True)"
    by (auto simp: steps_def step_where_train step_where_eval)
  have c: "p \<noteq> q \<longrightarrow>
        \<not> (create_query_where p n fp = Inr (Some True) \<and> create_query_where q n fp = Inr (Some True))"
    using phases_disjoint [of p n fp q] by blast
  from a b c show ?thesis by blast
qed

theorem splits_disjoint_witness:
  "step_where ''train'' 1234 = Some True \<and> step_where ''eval'' 1234 \<noteq> Some True
   \<and> sql_mod 1295 100 = Some 95
   \<and> step_where ''train'' 1295 \<noteq> Some True \<and> step_where ''eval'' 1295 \<noteq> Some True
   \<and> create_query_where ''VALID'' 50 3501 = Inr (Some True)
   \<and> create_query_where ''TRAIN'' 50 3501 \<noteq> Inr (Some True)"
proof -
  have t: "step_where ''train'' 1234 = Some True"
    by (simp add: step_where_def sql_mod_def)
  have m: "sql_mod 1295 100 = Some 95"
    by (simp add: sql_mod_def)
  have v: "create_query_where ''VALID'' 50 3501 = Inr (Some True)"
    by (simp add: create_query_where_def sample_where_def subsample_range_def sql_mod_def)
  show ?thesis
    using t m v splits_disjoint [of 1234 95 "''TRAIN''" "''VALID''" 50 3501]
      splits_disjoint [of 1295 95 "''TRAIN''" "''VALID''" 50 3501]
    by (simp add: steps_def)
qed

section \<open>Where errors go\<close>






end
